theory Spec2Isabelle
  imports Complex_Main
begin

section \<open>Numbers, arrays and configuration (common.ts)\<close>

text \<open>
  The library computes on JavaScript numbers. They are modelled as mathematical reals:
  every formula of the source is kept as written, the rounding of IEEE doubles, the
  values NaN and Infinity and the sign of zero are left out. A quotient whose divisor is
  zero has no counterpart in this model, so every statement about such a quotient carries
  the hypothesis that the divisor is not zero.

  A vector, matrix or quaternion is an indexable collection of numbers and is modelled as a
  list of reals; \<open>out[i] = v\<close> is \<open>out[i := v]\<close>. Each kernel below reads an
  index of its inputs before it writes the same index of \<open>out\<close>, so passing the
  lists by value gives the result of the source also when \<open>out\<close> is one of the inputs.
  The function returns the updated \<open>out\<close>.
\<close>

definition EPSILON :: real where
  "EPSILON = 1 / 1000000"

text \<open>\<open>Math.round\<close> rounds to the nearest integer, ties towards plus infinity;
  \<open>Math.floor\<close> rounds down; \<open>a % b\<close> is the remainder of the division truncated
  towards zero, so it carries the sign of \<open>a\<close>.\<close>

definition Math_round :: "real \<Rightarrow> real" where
  "Math_round a = of_int \<lfloor>a + 1 / 2\<rfloor>"

definition Math_floor :: "real \<Rightarrow> real" where
  "Math_floor a = of_int \<lfloor>a\<rfloor>"

definition js_rem :: "real \<Rightarrow> real \<Rightarrow> real" where
  "js_rem a b = a - b * of_int (if 0 \<le> a / b then \<lfloor>a / b\<rfloor> else \<lceil>a / b\<rceil>)"

text \<open>\<open>round\<close> of common.ts (the name \<open>round\<close> is taken by HOL).\<close>

definition round_glm :: "real \<Rightarrow> real" where
  "round_glm a =
     (if a \<ge> 0 then Math_round a
      else if js_rem a (1 / 2) = 0 then Math_floor a else Math_round a)"

definition equals :: "real \<Rightarrow> real \<Rightarrow> bool" where
  "equals a b = (\<bar>a - b\<bar> \<le> EPSILON * max 1 (max \<bar>a\<bar> \<bar>b\<bar>))"

section \<open>Approximate equality of vectors, matrices and quaternions\<close>

definition vec2Equals :: "real list \<Rightarrow> real list \<Rightarrow> bool" where
  "vec2Equals a b =
     (let a0 = a ! 0; a1 = a ! 1;
          b0 = b ! 0; b1 = b ! 1
      in \<bar>a0 - b0\<bar> \<le> EPSILON * max 1 (max \<bar>a0\<bar> \<bar>b0\<bar>) \<and>
         \<bar>a1 - b1\<bar> \<le> EPSILON * max 1 (max \<bar>a1\<bar> \<bar>b1\<bar>))"

definition vec3Equals :: "real list \<Rightarrow> real list \<Rightarrow> bool" where
  "vec3Equals a b =
     (let a0 = a ! 0; a1 = a ! 1; a2 = a ! 2;
          b0 = b ! 0; b1 = b ! 1; b2 = b ! 2
      in \<bar>a0 - b0\<bar> \<le> EPSILON * max 1 (max \<bar>a0\<bar> \<bar>b0\<bar>) \<and>
         \<bar>a1 - b1\<bar> \<le> EPSILON * max 1 (max \<bar>a1\<bar> \<bar>b1\<bar>) \<and>
         \<bar>a2 - b2\<bar> \<le> EPSILON * max 1 (max \<bar>a2\<bar> \<bar>b2\<bar>))"

definition vec4Equals :: "real list \<Rightarrow> real list \<Rightarrow> bool" where
  "vec4Equals a b =
     (let a0 = a ! 0; a1 = a ! 1; a2 = a ! 2; a3 = a ! 3;
          b0 = b ! 0; b1 = b ! 1; b2 = b ! 2; b3 = b ! 3
      in \<bar>a0 - b0\<bar> \<le> EPSILON * max 1 (max \<bar>a0\<bar> \<bar>b0\<bar>) \<and>
         \<bar>a1 - b1\<bar> \<le> EPSILON * max 1 (max \<bar>a1\<bar> \<bar>b1\<bar>) \<and>
         \<bar>a2 - b2\<bar> \<le> EPSILON * max 1 (max \<bar>a2\<bar> \<bar>b2\<bar>) \<and>
         \<bar>a3 - b3\<bar> \<le> EPSILON * max 1 (max \<bar>a3\<bar> \<bar>b3\<bar>))"

definition mat2dEquals :: "real list \<Rightarrow> real list \<Rightarrow> bool" where
  "mat2dEquals a b =
     (let a0 = a ! 0; a1 = a ! 1; a2 = a ! 2; a3 = a ! 3; a4 = a ! 4; a5 = a ! 5;
          b0 = b ! 0; b1 = b ! 1; b2 = b ! 2; b3 = b ! 3; b4 = b ! 4; b5 = b ! 5
      in \<bar>a0 - b0\<bar> \<le> EPSILON * max 1 (max \<bar>a0\<bar> \<bar>b0\<bar>) \<and>
         \<bar>a1 - b1\<bar> \<le> EPSILON * max 1 (max \<bar>a1\<bar> \<bar>b1\<bar>) \<and>
         \<bar>a2 - b2\<bar> \<le> EPSILON * max 1 (max \<bar>a2\<bar> \<bar>b2\<bar>) \<and>
         \<bar>a3 - b3\<bar> \<le> EPSILON * max 1 (max \<bar>a3\<bar> \<bar>b3\<bar>) \<and>
         \<bar>a4 - b4\<bar> \<le> EPSILON * max 1 (max \<bar>a4\<bar> \<bar>b4\<bar>) \<and>
         \<bar>a5 - b5\<bar> \<le> EPSILON * max 1 (max \<bar>a5\<bar> \<bar>b5\<bar>))"

definition vec4Dot :: "real list \<Rightarrow> real list \<Rightarrow> real" where
  "vec4Dot a b = a ! 0 * b ! 0 + a ! 1 * b ! 1 + a ! 2 * b ! 2 + a ! 3 * b ! 3"

text \<open>\<open>export const quatDot = vec4Dot\<close>\<close>

definition quatDot :: "real list \<Rightarrow> real list \<Rightarrow> real" where
  "quatDot = vec4Dot"

definition quatEquals :: "real list \<Rightarrow> real list \<Rightarrow> bool" where
  "quatEquals a b = (\<bar>quatDot a b\<bar> \<ge> 1 - EPSILON)"

section \<open>Normalisation (vec2, vec3.ts, vec4.ts, quat)\<close>

definition vec2Normalize :: "real list \<Rightarrow> real list \<Rightarrow> real list" where
  "vec2Normalize out a =
     (let x = a ! 0; y = a ! 1;
          len = x * x + y * y;
          len = (if len > 0 then 1 / sqrt len else len);
          out = out[0 := a ! 0 * len];
          out = out[1 := a ! 1 * len]
      in out)"

definition vec3Normalize :: "real list \<Rightarrow> real list \<Rightarrow> real list" where
  "vec3Normalize out a =
     (let x = a ! 0; y = a ! 1; z = a ! 2;
          len = x * x + y * y + z * z;
          len = (if len > 0 then 1 / sqrt len else len);
          out = out[0 := a ! 0 * len];
          out = out[1 := a ! 1 * len];
          out = out[2 := a ! 2 * len]
      in out)"

definition vec4Normalize :: "real list \<Rightarrow> real list \<Rightarrow> real list" where
  "vec4Normalize out a =
     (let x = a ! 0; y = a ! 1; z = a ! 2; w = a ! 3;
          len = x * x + y * y + z * z + w * w;
          len = (if len > 0 then 1 / sqrt len else len);
          out = out[0 := x * len];
          out = out[1 := y * len];
          out = out[2 := z * len];
          out = out[3 := w * len]
      in out)"

text \<open>\<open>export const quatNormalize = vec4Normalize\<close>\<close>

definition quatNormalize :: "real list \<Rightarrow> real list \<Rightarrow> real list" where
  "quatNormalize = vec4Normalize"

definition vec4Length :: "real list \<Rightarrow> real" where
  "vec4Length a =
     (let x = a ! 0; y = a ! 1; z = a ! 2; w = a ! 3
      in sqrt (x * x + y * y + z * z + w * w))"

section \<open>Spherical interpolation of quaternions\<close>

definition quatSlerp :: "real list \<Rightarrow> real list \<Rightarrow> real list \<Rightarrow> real \<Rightarrow> real list" where
  "quatSlerp out a b t =
     (let ax = a ! 0; ay = a ! 1; az = a ! 2; aw = a ! 3;
          bx = b ! 0; by = b ! 1; bz = b ! 2; bw = b ! 3;
          cosom = ax * bx + ay * by + az * bz + aw * bw;
          (cosom, bx, by, bz, bw) =
            (if cosom < 0 then (- cosom, - bx, - by, - bz, - bw)
             else (cosom, bx, by, bz, bw));
          (scale0, scale1) =
            (if 1 - cosom > EPSILON then
               (let omega = arccos cosom;
                    sinom = sin omega
                in (sin ((1 - t) * omega) / sinom, sin (t * omega) / sinom))
             else (1 - t, t));
          out = out[0 := scale0 * ax + scale1 * bx];
          out = out[1 := scale0 * ay + scale1 * by];
          out = out[2 := scale0 * az + scale1 * bz];
          out = out[3 := scale0 * aw + scale1 * bw]
      in out)"

section \<open>2x3 matrices (mat2d) and their action on points\<close>

definition mat2dIdentity :: "real list \<Rightarrow> real list" where
  "mat2dIdentity out =
     (let out = out[0 := 1];
          out = out[1 := 0];
          out = out[2 := 0];
          out = out[3 := 1];
          out = out[4 := 0];
          out = out[5 := 0]
      in out)"

definition mat2dDeterminant :: "real list \<Rightarrow> real" where
  "mat2dDeterminant a = a ! 0 * a ! 3 - a ! 1 * a ! 2"

text \<open>
  \<open>mat2dInvert\<close> returns \<open>null\<close> or the reference \<open>out\<close>. The model returns a pair:
  the returned value (\<open>None\<close> for \<open>null\<close>, \<open>Some\<close> of the content of \<open>out\<close>
  otherwise) and the content of the buffer \<open>out\<close> after the call. \<open>!det\<close> holds of a
  number exactly when it is zero (or NaN, which the model does not have).
\<close>

definition mat2dInvert :: "real list \<Rightarrow> real list \<Rightarrow> real list option \<times> real list" where
  "mat2dInvert out a =
     (let aa = a ! 0; ab = a ! 1; ac = a ! 2; ad = a ! 3;
          atx = a ! 4; aty = a ! 5;
          det = aa * ad - ab * ac
      in if det = 0 then (None, out)
         else
           (let det = 1 / det;
                out = out[0 := ad * det];
                out = out[1 := - ab * det];
                out = out[2 := - ac * det];
                out = out[3 := aa * det];
                out = out[4 := (ac * aty - ad * atx) * det];
                out = out[5 := (ab * atx - aa * aty) * det]
            in (Some out, out)))"

definition mat2dMultiply :: "real list \<Rightarrow> real list \<Rightarrow> real list \<Rightarrow> real list" where
  "mat2dMultiply out a b =
     (let a0 = a ! 0; a1 = a ! 1; a2 = a ! 2; a3 = a ! 3; a4 = a ! 4; a5 = a ! 5;
          b0 = b ! 0; b1 = b ! 1; b2 = b ! 2; b3 = b ! 3; b4 = b ! 4; b5 = b ! 5;
          out = out[0 := a0 * b0 + a2 * b1];
          out = out[1 := a1 * b0 + a3 * b1];
          out = out[2 := a0 * b2 + a2 * b3];
          out = out[3 := a1 * b2 + a3 * b3];
          out = out[4 := a0 * b4 + a2 * b5 + a4];
          out = out[5 := a1 * b4 + a3 * b5 + a5]
      in out)"

definition vec2TransformMat2d :: "real list \<Rightarrow> real list \<Rightarrow> real list \<Rightarrow> real list" where
  "vec2TransformMat2d out a m =
     (let x = a ! 0; y = a ! 1;
          out = out[0 := m ! 0 * x + m ! 2 * y + m ! 4];
          out = out[1 := m ! 1 * x + m ! 3 * y + m ! 5]
      in out)"

definition vec2Add :: "real list \<Rightarrow> real list \<Rightarrow> real list \<Rightarrow> real list" where
  "vec2Add out a b =
     (let out = out[0 := a ! 0 + b ! 0];
          out = out[1 := a ! 1 + b ! 1]
      in out)"

definition vec2Subtract :: "real list \<Rightarrow> real list \<Rightarrow> real list \<Rightarrow> real list" where
  "vec2Subtract out a b =
     (let out = out[0 := a ! 0 - b ! 0];
          out = out[1 := a ! 1 - b ! 1]
      in out)"

definition vec2Set :: "real list \<Rightarrow> real \<Rightarrow> real \<Rightarrow> real list" where
  "vec2Set out x y =
     (let out = out[0 := x];
          out = out[1 := y]
      in out)"

section \<open>Constructors and the configured array type\<close>

text \<open>
  \<open>ARRAY_TYPE\<close> is a module variable of common.ts, initially \<open>Array\<close>;
  \<open>setMatrixArrayType\<close> is its only assignment. The configuration is passed to every
  function that reads the variable. An allocated array records the constructor it was
  built with and its slots: \<open>new Float32Array(n)\<close> has \<open>n\<close> slots holding zero,
  \<open>new Array(n)\<close> has \<open>n\<close> empty slots (\<open>None\<close>). The rounding of a value stored in
  a \<open>Float32Array\<close> to 32 bits is not modelled.
\<close>

datatype array_ctor = Float32Array | Array

record config =
  ARRAY_TYPE :: array_ctor

definition initial_config :: config where
  "initial_config = \<lparr>ARRAY_TYPE = Array\<rparr>"

definition setMatrixArrayType :: "array_ctor \<Rightarrow> config \<Rightarrow> config" where
  "setMatrixArrayType type st = st\<lparr>ARRAY_TYPE := type\<rparr>"

record typed_array =
  ctor :: array_ctor
  slots :: "real option list"

definition new_array :: "array_ctor \<Rightarrow> nat \<Rightarrow> typed_array" where
  "new_array type n =
     \<lparr>ctor = type,
      slots = replicate n (case type of Float32Array \<Rightarrow> Some 0 | Array \<Rightarrow> None)\<rparr>"

definition store_slot :: "typed_array \<Rightarrow> nat \<Rightarrow> real \<Rightarrow> typed_array" where
  "store_slot out i v = out\<lparr>slots := (slots out)[i := Some v]\<rparr>"

definition vec2Create :: "config \<Rightarrow> typed_array" where
  "vec2Create st =
     (let out = new_array (ARRAY_TYPE st) 2;
          out = (if ARRAY_TYPE st \<noteq> Float32Array
                 then store_slot (store_slot out 0 0) 1 0 else out)
      in out)"

definition vec2Clone :: "real list \<Rightarrow> typed_array" where
  "vec2Clone a =
     (let out = new_array Array 2;
          out = store_slot out 0 (a ! 0);
          out = store_slot out 1 (a ! 1)
      in out)"

definition vec2FromValues :: "config \<Rightarrow> real \<Rightarrow> real \<Rightarrow> typed_array" where
  "vec2FromValues st x y =
     (let out = new_array (ARRAY_TYPE st) 2;
          out = store_slot out 0 x;
          out = store_slot out 1 y
      in out)"

definition vec3Create :: "config \<Rightarrow> typed_array" where
  "vec3Create st =
     (let out = new_array (ARRAY_TYPE st) 3;
          out = (if ARRAY_TYPE st \<noteq> Float32Array
                 then store_slot (store_slot (store_slot out 0 0) 1 0) 2 0 else out)
      in out)"

definition vec3Clone :: "config \<Rightarrow> real list \<Rightarrow> typed_array" where
  "vec3Clone st a =
     (let out = new_array (ARRAY_TYPE st) 3;
          out = store_slot out 0 (a ! 0);
          out = store_slot out 1 (a ! 1);
          out = store_slot out 2 (a ! 2)
      in out)"

definition vec3FromValues :: "config \<Rightarrow> real \<Rightarrow> real \<Rightarrow> real \<Rightarrow> typed_array" where
  "vec3FromValues st x y z =
     (let out = new_array (ARRAY_TYPE st) 3;
          out = store_slot out 0 x;
          out = store_slot out 1 y;
          out = store_slot out 2 z
      in out)"

definition vec4Create :: "config \<Rightarrow> typed_array" where
  "vec4Create st =
     (let out = new_array (ARRAY_TYPE st) 4;
          out = (if ARRAY_TYPE st \<noteq> Float32Array
                 then store_slot (store_slot (store_slot (store_slot out 0 0) 1 0) 2 0) 3 0
                 else out)
      in out)"

definition vec4Clone :: "config \<Rightarrow> real list \<Rightarrow> typed_array" where
  "vec4Clone st a =
     (let out = new_array (ARRAY_TYPE st) 4;
          out = store_slot out 0 (a ! 0);
          out = store_slot out 1 (a ! 1);
          out = store_slot out 2 (a ! 2);
          out = store_slot out 3 (a ! 3)
      in out)"

definition vec4FromValues ::
  "config \<Rightarrow> real \<Rightarrow> real \<Rightarrow> real \<Rightarrow> real \<Rightarrow> typed_array" where
  "vec4FromValues st x y z w =
     (let out = new_array (ARRAY_TYPE st) 4;
          out = store_slot out 0 x;
          out = store_slot out 1 y;
          out = store_slot out 2 z;
          out = store_slot out 3 w
      in out)"

definition mat2dCreate :: "config \<Rightarrow> typed_array" where
  "mat2dCreate st =
     (let out = new_array (ARRAY_TYPE st) 6;
          out = (if ARRAY_TYPE st \<noteq> Float32Array
                 then store_slot (store_slot (store_slot (store_slot out 1 0) 2 0) 4 0) 5 0
                 else out);
          out = store_slot out 0 1;
          out = store_slot out 3 1
      in out)"

definition mat2dClone :: "config \<Rightarrow> real list \<Rightarrow> typed_array" where
  "mat2dClone st a =
     (let out = new_array (ARRAY_TYPE st) 6;
          out = store_slot out 0 (a ! 0);
          out = store_slot out 1 (a ! 1);
          out = store_slot out 2 (a ! 2);
          out = store_slot out 3 (a ! 3);
          out = store_slot out 4 (a ! 4);
          out = store_slot out 5 (a ! 5)
      in out)"

definition mat2dFromValues ::
  "config \<Rightarrow> real \<Rightarrow> real \<Rightarrow> real \<Rightarrow> real \<Rightarrow> real \<Rightarrow> real \<Rightarrow> typed_array" where
  "mat2dFromValues st a b c d tx ty =
     (let out = new_array (ARRAY_TYPE st) 6;
          out = store_slot out 0 a;
          out = store_slot out 1 b;
          out = store_slot out 2 c;
          out = store_slot out 3 d;
          out = store_slot out 4 tx;
          out = store_slot out 5 ty
      in out)"

definition quatCreate :: "config \<Rightarrow> typed_array" where
  "quatCreate st =
     (let out = new_array (ARRAY_TYPE st) 4;
          out = (if ARRAY_TYPE st \<noteq> Float32Array
                 then store_slot (store_slot (store_slot out 0 0) 1 0) 2 0 else out);
          out = store_slot out 3 1
      in out)"

text \<open>\<open>export const quatClone = vec4Clone\<close>, \<open>export const quatFromValues = vec4FromValues\<close>\<close>

definition quatClone :: "config \<Rightarrow> real list \<Rightarrow> typed_array" where
  "quatClone = vec4Clone"

definition quatFromValues ::
  "config \<Rightarrow> real \<Rightarrow> real \<Rightarrow> real \<Rightarrow> real \<Rightarrow> typed_array" where
  "quatFromValues = vec4FromValues"

section \<open>Rectangles (rect.ts)\<close>

text \<open>
  A \<open>Rect\<close> is a mutable object, and the functions of rect.ts write the fields of
  \<open>out\<close> while they read \<open>rect\<close>, \<open>source\<close> and \<open>target\<close>, which may be the same
  object. The objects live in a store from references to records. A function that only
  reads its rectangle takes the record; a function that writes takes the store and the
  references and returns the store (the value it returns in the source is the reference
  \<open>out\<close> itself).
\<close>

record Rect =
  x :: real
  y :: real
  width :: real
  height :: real

type_synonym ref = nat

type_synonym store = "ref \<Rightarrow> Rect"

definition rectCreate :: Rect where
  "rectCreate = \<lparr>x = 0, y = 0, width = 1, height = 1\<rparr>"

definition rectFromPositionSize :: "ref \<Rightarrow> real list \<Rightarrow> real list \<Rightarrow> store \<Rightarrow> store" where
  "rectFromPositionSize out position size' h =
     (let h = h(out := (h out)\<lparr>width := size' ! 0\<rparr>);
          h = h(out := (h out)\<lparr>height := size' ! 1\<rparr>);
          h = h(out := (h out)\<lparr>x := position ! 0 - size' ! 0 / 2\<rparr>);
          h = h(out := (h out)\<lparr>y := position ! 1 - size' ! 1 / 2\<rparr>)
      in h)"

definition rectCenterX :: "Rect \<Rightarrow> real" where
  "rectCenterX rect = x rect + width rect / 2"

definition rectSetCenterX :: "ref \<Rightarrow> ref \<Rightarrow> real \<Rightarrow> store \<Rightarrow> store" where
  "rectSetCenterX out rect cx h = h(out := (h out)\<lparr>x := cx - width (h rect) / 2\<rparr>)"

definition rectCenterY :: "Rect \<Rightarrow> real" where
  "rectCenterY rect = y rect + height rect / 2"

definition rectSetCenterY :: "ref \<Rightarrow> ref \<Rightarrow> real \<Rightarrow> store \<Rightarrow> store" where
  "rectSetCenterY out rect cy h = h(out := (h out)\<lparr>y := cy - height (h rect) / 2\<rparr>)"

definition rectCenter :: "real list \<Rightarrow> Rect \<Rightarrow> real list" where
  "rectCenter out rect = vec2Set out (rectCenterX rect) (rectCenterY rect)"

definition rectSetCenter :: "ref \<Rightarrow> ref \<Rightarrow> real list \<Rightarrow> store \<Rightarrow> store" where
  "rectSetCenter out rect center h =
     (let h = rectSetCenterX out rect (center ! 0) h;
          h = rectSetCenterX out rect (center ! 1) h
      in h)"

definition rectCopyCenter :: "ref \<Rightarrow> ref \<Rightarrow> ref \<Rightarrow> store \<Rightarrow> store" where
  "rectCopyCenter out source target h =
     (let h = rectSetCenterX out source (rectCenterX (h target)) h;
          h = rectSetCenterY out source (rectCenterY (h target)) h
      in h)"

definition rectFit ::
  "ref \<Rightarrow> ref \<Rightarrow> ref \<Rightarrow> (real \<Rightarrow> real \<Rightarrow> real) \<Rightarrow> store \<Rightarrow> store" where
  "rectFit out source target compare h =
     (let sx = width (h target) / width (h source);
          sy = height (h target) / height (h source);
          s = compare sx sy;
          h = h(out := (h out)\<lparr>width := width (h source) * s\<rparr>);
          h = h(out := (h out)\<lparr>height := height (h source) * s\<rparr>);
          h = rectCopyCenter out out target h
      in h)"


definition rectCover :: "ref \<Rightarrow> ref \<Rightarrow> ref \<Rightarrow> store \<Rightarrow> store" where
  "rectCover out source target h = rectFit out source target max h"

definition rectUntransformMat2d :: "real list \<Rightarrow> Rect \<Rightarrow> Rect \<Rightarrow> real list" where
  "rectUntransformMat2d out source target =
     (let out = out[0 := width target / width source];
          out = out[1 := 0];
          out = out[2 := 0];
          out = out[3 := height target / height source];
          out = out[4 := rectCenterX target - rectCenterX source];
          out = out[5 := rectCenterY target - rectCenterY source]
      in out)"

section \<open>Auxiliary facts\<close>

lemma list_of_length_2: "length (xs :: 'a list) = 2 \<Longrightarrow> \<exists>a b. xs = [a, b]"
  by (cases xs; simp; rename_tac ys; case_tac ys; simp)

lemma list_of_length_3: "length (xs :: 'a list) = 3 \<Longrightarrow> \<exists>a b c. xs = [a, b, c]"
  by (cases xs; simp; rename_tac ys; case_tac ys; simp; rename_tac ys; case_tac ys; simp)

lemma list_of_length_4: "length (xs :: 'a list) = 4 \<Longrightarrow> \<exists>a b c d. xs = [a, b, c, d]"
  by (cases xs; simp; rename_tac ys; case_tac ys; simp; rename_tac ys; case_tac ys; simp;
      rename_tac ys; case_tac ys; simp)

lemma list_of_length_6:
  "length (xs :: 'a list) = 6 \<Longrightarrow> \<exists>a b c d e f. xs = [a, b, c, d, e, f]"
  by (cases xs; simp; rename_tac ys; case_tac ys; simp; rename_tac ys; case_tac ys; simp;
      rename_tac ys; case_tac ys; simp; rename_tac ys; case_tac ys; simp;
      rename_tac ys; case_tac ys; simp)

section \<open>C1: approximate equality\<close>

text \<open>
  C1, counterexample. The unit quaternions \<open>(0,0,0,1)\<close> and \<open>(0,0,0,-1)\<close> are equal for
  \<open>quatEquals\<close>, whose test is on the dot product, while their fourth components fail
  the scalar test: \<open>quatEquals\<close> is not the conjunction of the component tests.
\<close>

theorem quatEquals_componentwise_counterexample:
  "quatEquals [0, 0, 0, 1] [0, 0, 0, - 1] \<and>
   \<not> (equals ([0, 0, 0, 1] ! 0) ([0, 0, 0, - 1] ! 0) \<and>
      equals ([0, 0, 0, 1] ! 1) ([0, 0, 0, - 1] ! 1) \<and>
      equals ([0, 0, 0, 1] ! 2) ([0, 0, 0, - 1] ! 2) \<and>
      equals ([0, 0, 0, 1] ! 3) ([0, 0, 0, - 1] ! 3))"
  by (simp add: quatEquals_def quatDot_def vec4Dot_def equals_def EPSILON_def)

text \<open>
  C1, as amended. \<open>equals p q\<close> holds iff \<open>|p - q| \<le> 10\<^sup>-\<^sup>6 * max(1, |p|, |q|)\<close>;
  \<open>vec2Equals\<close>, \<open>vec3Equals\<close>, \<open>vec4Equals\<close> and \<open>mat2dEquals\<close> hold iff the scalar
  test holds of every pair of corresponding components; \<open>quatEquals\<close> holds iff the
  absolute value of the dot product of its arguments is at least \<open>1 - 10\<^sup>-\<^sup>6\<close>.
\<close>

theorem approximate_equality_by_components:
  "(equals p q \<longleftrightarrow> \<bar>p - q\<bar> \<le> 1 / 1000000 * max 1 (max \<bar>p\<bar> \<bar>q\<bar>)) \<and>
   (vec2Equals a b \<longleftrightarrow> equals (a ! 0) (b ! 0) \<and> equals (a ! 1) (b ! 1)) \<and>
   (vec3Equals a b \<longleftrightarrow>
      equals (a ! 0) (b ! 0) \<and> equals (a ! 1) (b ! 1) \<and> equals (a ! 2) (b ! 2)) \<and>
   (vec4Equals a b \<longleftrightarrow>
      equals (a ! 0) (b ! 0) \<and> equals (a ! 1) (b ! 1) \<and> equals (a ! 2) (b ! 2) \<and>
      equals (a ! 3) (b ! 3)) \<and>
   (mat2dEquals a b \<longleftrightarrow>
      equals (a ! 0) (b ! 0) \<and> equals (a ! 1) (b ! 1) \<and> equals (a ! 2) (b ! 2) \<and>
      equals (a ! 3) (b ! 3) \<and> equals (a ! 4) (b ! 4) \<and> equals (a ! 5) (b ! 5)) \<and>
   (quatEquals a b \<longleftrightarrow>
      \<bar>a ! 0 * b ! 0 + a ! 1 * b ! 1 + a ! 2 * b ! 2 + a ! 3 * b ! 3\<bar> \<ge> 1 - 1 / 1000000)"
  by (simp add: equals_def vec2Equals_def vec3Equals_def vec4Equals_def mat2dEquals_def
      quatEquals_def quatDot_def vec4Dot_def EPSILON_def Let_def)

section \<open>C2: the matrix from one rectangle to another\<close>

text \<open>
  C2, counterexample. For the source \<open>{0, 0, 1, 1}\<close> and the target \<open>{0, 0, 2, 2}\<close> the
  matrix is \<open>[2, 0, 0, 2, 1/2, 1/2]\<close>; \<open>vec2TransformMat2d\<close> sends the centre
  \<open>(1/2, 1/2)\<close> of the source to \<open>(3/2, 3/2)\<close>, and the centre of the target is
  \<open>(1, 1)\<close>.
\<close>

theorem rectUntransformMat2d_center_counterexample:
  "vec2TransformMat2d [0, 0]
      [rectCenterX \<lparr>x = 0, y = 0, width = 1, height = 1\<rparr>,
       rectCenterY \<lparr>x = 0, y = 0, width = 1, height = 1\<rparr>]
      (rectUntransformMat2d [1, 0, 0, 1, 0, 0]
         \<lparr>x = 0, y = 0, width = 1, height = 1\<rparr> \<lparr>x = 0, y = 0, width = 2, height = 2\<rparr>)
    = [3 / 2, 3 / 2] \<and>
   [rectCenterX \<lparr>x = 0, y = 0, width = 2, height = 2\<rparr>,
    rectCenterY \<lparr>x = 0, y = 0, width = 2, height = 2\<rparr>] = [1, 1]"
  by (simp add: vec2TransformMat2d_def rectUntransformMat2d_def rectCenterX_def
      rectCenterY_def Let_def)

text \<open>
  C2, as amended. For a source of nonzero width and height the matrix is
  \<open>[tw/sw, 0, 0, th/sh, cx\<^sub>t - cx\<^sub>s, cy\<^sub>t - cy\<^sub>s]\<close>, an affine map taken about the centre of
  the source: for the point of the source at the fractions \<open>(u, v)\<close> of its width and
  height, transforming its offset from the centre of the source with
  \<open>vec2TransformMat2d\<close> and adding the centre of the source gives the point of the target
  at the same fractions (so the centre goes to the centre). On absolute coordinates
  \<open>vec2TransformMat2d\<close> sends the centre of the source to the centre of the target
  displaced by \<open>((tw/sw - 1) cx\<^sub>s, (th/sh - 1) cy\<^sub>s)\<close>.
\<close>

theorem rectUntransformMat2d_about_center:
  assumes "width source \<noteq> 0" and "height source \<noteq> 0" and "length out = 6"
    and "length o1 = 2" and "length o2 = 2" and "length o3 = 2"
  shows "rectUntransformMat2d out source target =
           [width target / width source, 0, 0, height target / height source,
            rectCenterX target - rectCenterX source,
            rectCenterY target - rectCenterY source] \<and>
         vec2Add o3
           (vec2TransformMat2d o2
              (vec2Subtract o1
                 [x source + u * width source, y source + v * height source]
                 [rectCenterX source, rectCenterY source])
              (rectUntransformMat2d out source target))
           [rectCenterX source, rectCenterY source]
         = [x target + u * width target, y target + v * height target] \<and>
         vec2TransformMat2d o2 [rectCenterX source, rectCenterY source]
              (rectUntransformMat2d out source target)
         = [rectCenterX target + (width target / width source - 1) * rectCenterX source,
            rectCenterY target + (height target / height source - 1) * rectCenterY source]"
proof -
  obtain a b c d e f where out: "out = [a, b, c, d, e, f]"
    using list_of_length_6[OF assms(3)] by blast
  obtain p1 p2 where o1: "o1 = [p1, p2]" using list_of_length_2[OF assms(4)] by blast
  obtain q1 q2 where o2: "o2 = [q1, q2]" using list_of_length_2[OF assms(5)] by blast
  obtain r1 r2 where o3: "o3 = [r1, r2]" using list_of_length_2[OF assms(6)] by blast
  show ?thesis
    using assms(1,2)
    by (simp add: out o1 o2 o3 rectUntransformMat2d_def vec2Add_def vec2TransformMat2d_def
        vec2Subtract_def rectCenterX_def rectCenterY_def Let_def field_simps)
qed

text \<open>
  C2, witness: the source \<open>{1, 2, 2, 4}\<close>, the target \<open>{10, 20, 6, 2}\<close> and the lower
  right corner \<open>(u, v) = (1, 1)\<close>.
\<close>

theorem rectUntransformMat2d_about_center_witness:
  "width \<lparr>x = 1, y = 2, width = 2, height = 4\<rparr> \<noteq> 0 \<and>
   height \<lparr>x = 1, y = 2, width = 2, height = 4\<rparr> \<noteq> 0 \<and>
   length [0, 0, 0, 0, 0, 0 :: real] = 6 \<and> length [0, 0 :: real] = 2 \<and>
   rectUntransformMat2d [0, 0, 0, 0, 0, 0] \<lparr>x = 1, y = 2, width = 2, height = 4\<rparr>
       \<lparr>x = 10, y = 20, width = 6, height = 2\<rparr> = [3, 0, 0, 1 / 2, 11, 17] \<and>
   vec2Add [0, 0]
     (vec2TransformMat2d [0, 0]
        (vec2Subtract [0, 0] [3, 6]
           [rectCenterX \<lparr>x = 1, y = 2, width = 2, height = 4\<rparr>,
            rectCenterY \<lparr>x = 1, y = 2, width = 2, height = 4\<rparr>])
        (rectUntransformMat2d [0, 0, 0, 0, 0, 0] \<lparr>x = 1, y = 2, width = 2, height = 4\<rparr>
           \<lparr>x = 10, y = 20, width = 6, height = 2\<rparr>))
     [rectCenterX \<lparr>x = 1, y = 2, width = 2, height = 4\<rparr>,
      rectCenterY \<lparr>x = 1, y = 2, width = 2, height = 4\<rparr>]
   = [16, 22]"
proof -
  have h1: "width \<lparr>x = 1, y = 2, width = 2, height = 4\<rparr> \<noteq> 0" by simp
  have h2: "height \<lparr>x = 1, y = 2, width = 2, height = 4\<rparr> \<noteq> 0" by simp
  have h3: "length [0, 0, 0, 0, 0, 0 :: real] = 6" by simp
  have h4: "length [0, 0 :: real] = 2" by simp
  show ?thesis
    using rectUntransformMat2d_about_center [OF h1 h2 h3 h4 h4 h4,
        of "\<lparr>x = 10, y = 20, width = 6, height = 2\<rparr>" 1 1]
    by (auto simp: rectCenterX_def rectCenterY_def)
qed

section \<open>C3: inversion of a 2x3 matrix\<close>

lemma mat2dIdentity_list: "length out = 6 \<Longrightarrow> mat2dIdentity out = [1, 0, 0, 1, 0, 0]"
  using list_of_length_6[of out] by (auto simp: mat2dIdentity_def)

lemma inverse_entries:
  fixes aa ab ac ad atx aty d :: real
  assumes k: "(aa * ad - ab * ac) * d = 1"
  shows "aa * (ad * d) + ac * (- ab * d) = 1"
    and "ab * (ad * d) + ad * (- ab * d) = 0"
    and "aa * (- ac * d) + ac * (aa * d) = 0"
    and "ab * (- ac * d) + ad * (aa * d) = 1"
    and "aa * ((ac * aty - ad * atx) * d) + ac * ((ab * atx - aa * aty) * d) + atx = 0"
    and "ab * ((ac * aty - ad * atx) * d) + ad * ((ab * atx - aa * aty) * d) + aty = 0"
    and "ad * d * aa + - ac * d * ab = 1"
    and "- ab * d * aa + aa * d * ab = 0"
    and "ad * d * ac + - ac * d * ad = 0"
    and "- ab * d * ac + aa * d * ad = 1"
    and "ad * d * atx + - ac * d * aty + (ac * aty - ad * atx) * d = 0"
    and "- ab * d * atx + aa * d * aty + (ab * atx - aa * aty) * d = 0"
proof -
  have e1: "aa * (ad * d) + ac * (- ab * d) = (aa * ad - ab * ac) * d"
    by (simp add: algebra_simps)
  show "aa * (ad * d) + ac * (- ab * d) = 1" using e1 k by simp
  show "ab * (ad * d) + ad * (- ab * d) = 0" by (simp add: algebra_simps)
  show "aa * (- ac * d) + ac * (aa * d) = 0" by (simp add: algebra_simps)
  have e4: "ab * (- ac * d) + ad * (aa * d) = (aa * ad - ab * ac) * d"
    by (simp add: algebra_simps)
  show "ab * (- ac * d) + ad * (aa * d) = 1" using e4 k by simp
  have e5: "aa * ((ac * aty - ad * atx) * d) + ac * ((ab * atx - aa * aty) * d) + atx
     = atx - atx * ((aa * ad - ab * ac) * d)" by (simp add: algebra_simps)
  show "aa * ((ac * aty - ad * atx) * d) + ac * ((ab * atx - aa * aty) * d) + atx = 0"
    unfolding e5 k by simp
  have e6: "ab * ((ac * aty - ad * atx) * d) + ad * ((ab * atx - aa * aty) * d) + aty
     = aty - aty * ((aa * ad - ab * ac) * d)" by (simp add: algebra_simps)
  show "ab * ((ac * aty - ad * atx) * d) + ad * ((ab * atx - aa * aty) * d) + aty = 0"
    unfolding e6 k by simp
  have e7: "ad * d * aa + - ac * d * ab = (aa * ad - ab * ac) * d"
    by (simp add: algebra_simps)
  show "ad * d * aa + - ac * d * ab = 1" using e7 k by simp
  show "- ab * d * aa + aa * d * ab = 0" by (simp add: algebra_simps)
  show "ad * d * ac + - ac * d * ad = 0" by (simp add: algebra_simps)
  have e10: "- ab * d * ac + aa * d * ad = (aa * ad - ab * ac) * d"
    by (simp add: algebra_simps)
  show "- ab * d * ac + aa * d * ad = 1" using e10 k by simp
  show "ad * d * atx + - ac * d * aty + (ac * aty - ad * atx) * d = 0"
    by (simp add: algebra_simps)
  show "- ab * d * atx + aa * d * aty + (ab * atx - aa * aty) * d = 0"
    by (simp add: algebra_simps)
qed

lemma mat2dInvert_singular: "mat2dDeterminant a = 0 \<Longrightarrow> mat2dInvert out a = (None, out)"
  by (simp add: mat2dDeterminant_def mat2dInvert_def Let_def)

lemma mat2dInvert_regular:
  assumes "mat2dDeterminant b \<noteq> 0" and "length out = 6" and "length tmp = 6"
  shows "fst (mat2dInvert out b) = Some (snd (mat2dInvert out b)) \<and>
     mat2dMultiply tmp b (snd (mat2dInvert out b)) = [1, 0, 0, 1, 0, 0] \<and>
     mat2dMultiply tmp (snd (mat2dInvert out b)) b = [1, 0, 0, 1, 0, 0]"
proof -
  obtain a1 a2 a3 a4 a5 a6 where out: "out = [a1, a2, a3, a4, a5, a6]"
    using list_of_length_6[OF assms(2)] by blast
  obtain c1 c2 c3 c4 c5 c6 where tmp: "tmp = [c1, c2, c3, c4, c5, c6]"
    using list_of_length_6[OF assms(3)] by blast
  define d where "d = 1 / (b ! 0 * b ! 3 - b ! 1 * b ! 2)"
  have nz: "b ! 0 * b ! 3 - b ! 1 * b ! 2 \<noteq> 0"
    using assms(1) by (simp add: mat2dDeterminant_def)
  have k: "(b ! 0 * b ! 3 - b ! 1 * b ! 2) * d = 1" using nz by (simp add: d_def)
  have inv: "mat2dInvert out b =
     (Some [b ! 3 * d, - b ! 1 * d, - b ! 2 * d, b ! 0 * d,
            (b ! 2 * b ! 5 - b ! 3 * b ! 4) * d, (b ! 1 * b ! 4 - b ! 0 * b ! 5) * d],
      [b ! 3 * d, - b ! 1 * d, - b ! 2 * d, b ! 0 * d,
       (b ! 2 * b ! 5 - b ! 3 * b ! 4) * d, (b ! 1 * b ! 4 - b ! 0 * b ! 5) * d])"
    using nz by (simp add: mat2dInvert_def Let_def out d_def)
  note E = inverse_entries[OF k]
  show ?thesis
    unfolding inv fst_conv snd_conv mat2dMultiply_def Let_def tmp
    using E by simp
qed

text \<open>The inverse of the translation by \<open>(5, 5)\<close> is the translation by \<open>(-5, -5)\<close>.\<close>

lemma mat2dInvert_translation:
  "mat2dInvert [9, 9, 9, 9, 9, 9] [1, 0, 0, 1, 5, 5]
     = (Some [1, 0, 0, 1, - 5, - 5], [1, 0, 0, 1, - 5, - 5])"
  by (simp add: mat2dInvert_def Let_def)

text \<open>
  C3. When the determinant \<open>a[0]*a[3] - a[1]*a[2]\<close> is zero, \<open>mat2dInvert(out, a)\<close>
  returns \<open>null\<close> and \<open>out\<close> keeps its content. When the determinant of \<open>b\<close> is not
  zero, the call returns \<open>out\<close>, and \<open>out\<close> then holds the inverse of \<open>b\<close>: its
  product with \<open>b\<close>, on either side, is the identity matrix.
\<close>

theorem mat2dInvert_null_or_inverse:
  "(mat2dDeterminant a = 0 \<longrightarrow> mat2dInvert out a = (None, out)) \<and>
   (mat2dDeterminant b \<noteq> 0 \<and> length out' = 6 \<and> length tmp = 6 \<longrightarrow>
      fst (mat2dInvert out' b) = Some (snd (mat2dInvert out' b)) \<and>
      mat2dMultiply tmp b (snd (mat2dInvert out' b)) = mat2dIdentity tmp \<and>
      mat2dMultiply tmp (snd (mat2dInvert out' b)) b = mat2dIdentity tmp)"
  using mat2dInvert_singular[of a out] mat2dInvert_regular[of b out' tmp]
  by (simp add: mat2dIdentity_list)

text \<open>
  C3, witness: the singular matrix \<open>[1, 2, 2, 4, 0, 0]\<close> with a buffer of nines, and the
  translation \<open>[1, 0, 0, 1, 5, 5]\<close>.
\<close>

theorem mat2dInvert_null_or_inverse_witness:
  "mat2dDeterminant [1, 2, 2, 4, 0, 0] = 0 \<and>
   mat2dInvert [9, 9, 9, 9, 9, 9] [1, 2, 2, 4, 0, 0] = (None, [9, 9, 9, 9, 9, 9]) \<and>
   mat2dDeterminant [1, 0, 0, 1, 5, 5] \<noteq> 0 \<and> length [9, 9, 9, 9, 9, 9 :: real] = 6 \<and>
   fst (mat2dInvert [9, 9, 9, 9, 9, 9] [1, 0, 0, 1, 5, 5])
     = Some (snd (mat2dInvert [9, 9, 9, 9, 9, 9] [1, 0, 0, 1, 5, 5])) \<and>
   mat2dMultiply [9, 9, 9, 9, 9, 9] [1, 0, 0, 1, 5, 5]
      (snd (mat2dInvert [9, 9, 9, 9, 9, 9] [1, 0, 0, 1, 5, 5]))
     = mat2dIdentity [9, 9, 9, 9, 9, 9]"
proof -
  have h1: "mat2dDeterminant [1, 2, 2, 4, 0, 0] = 0" by (simp add: mat2dDeterminant_def)
  have h2: "mat2dDeterminant [1, 0, 0, 1, 5, 5] \<noteq> 0" by (simp add: mat2dDeterminant_def)
  have h3: "length [9, 9, 9, 9, 9, 9 :: real] = 6" by simp
  show ?thesis
    using h1 h2 h3
      mat2dInvert_null_or_inverse [of "[1, 2, 2, 4, 0, 0]" "[9, 9, 9, 9, 9, 9]"
        "[1, 0, 0, 1, 5, 5]" "[9, 9, 9, 9, 9, 9]" "[9, 9, 9, 9, 9, 9]"]
    by blast
qed

section \<open>C4: setting the centre of a rectangle\<close>

text \<open>
  C4, the code at \<open>r = {x: 0, y: 0, width: 2, height: 2}\<close> and \<open>c = [5, 7]\<close>.
  \<open>rectSetCenter(r, r, c)\<close> calls \<open>rectSetCenterX\<close> twice, the second time with
  \<open>c[1]\<close>: it leaves \<open>r = {6, 0, 2, 2}\<close>, whose centre is \<open>(7, 1)\<close> and not \<open>(5, 7)\<close>.
\<close>

theorem rectSetCenter_writes_x_twice:
  "rectSetCenter 0 0 [5, 7] (\<lambda>_. \<lparr>x = 0, y = 0, width = 2, height = 2\<rparr>) 0
     = \<lparr>x = 6, y = 0, width = 2, height = 2\<rparr> \<and>
   rectCenterX (rectSetCenter 0 0 [5, 7] (\<lambda>_. \<lparr>x = 0, y = 0, width = 2, height = 2\<rparr>) 0) = 7 \<and>
   rectCenterY (rectSetCenter 0 0 [5, 7] (\<lambda>_. \<lparr>x = 0, y = 0, width = 2, height = 2\<rparr>) 0) = 1"
  by (simp add: rectSetCenter_def rectSetCenterX_def rectCenterX_def rectCenterY_def Let_def)

text \<open>
  The same for every rectangle and vector: in place, the centre read back has the second
  component of \<open>c\<close> as its x coordinate, and the y coordinate it had before.
\<close>

lemma rectSetCenter_in_place:
  "rectCenterX (rectSetCenter r r c h r) = c ! 1 \<and>
   rectCenterY (rectSetCenter r r c h r) = rectCenterY (h r)"
  by (simp add: rectSetCenter_def rectSetCenterX_def rectCenterX_def rectCenterY_def Let_def)

section \<open>C5: the array type of constructed objects\<close>

text \<open>
  C5, the code after \<open>setMatrixArrayType(Float32Array)\<close>. \<open>vec2Clone([1, 2])\<close> is built
  with \<open>new Array(2)\<close> and is a plain \<open>Array\<close>, while \<open>vec2FromValues\<close>,
  \<open>vec2Create\<close>, \<open>vec3Clone\<close> and \<open>vec4Clone\<close> return a \<open>Float32Array\<close>.
\<close>

theorem vec2Clone_ignores_ARRAY_TYPE:
  "vec2Clone [1, 2] = \<lparr>ctor = Array, slots = [Some 1, Some 2]\<rparr> \<and>
   vec2FromValues (setMatrixArrayType Float32Array initial_config) 1 2
     = \<lparr>ctor = Float32Array, slots = [Some 1, Some 2]\<rparr> \<and>
   vec2Create (setMatrixArrayType Float32Array initial_config)
     = \<lparr>ctor = Float32Array, slots = [Some 0, Some 0]\<rparr> \<and>
   vec3Clone (setMatrixArrayType Float32Array initial_config) [1, 2, 3]
     = \<lparr>ctor = Float32Array, slots = [Some 1, Some 2, Some 3]\<rparr> \<and>
   vec4Clone (setMatrixArrayType Float32Array initial_config) [1, 2, 3, 4]
     = \<lparr>ctor = Float32Array, slots = [Some 1, Some 2, Some 3, Some 4]\<rparr>"
  by (simp add: vec2Clone_def vec2FromValues_def vec2Create_def vec3Clone_def vec4Clone_def
      setMatrixArrayType_def initial_config_def new_array_def store_slot_def Let_def
      eval_nat_numeral)

text \<open>
  Every constructor but \<open>vec2Clone\<close> allocates with the configured array type, whatever
  the configuration; \<open>vec2Clone\<close> allocates a plain \<open>Array\<close>.
\<close>

lemma constructors_array_type:
  "ctor (vec2Clone a) = Array \<and>
   ctor (vec2Create st) = ARRAY_TYPE st \<and>
   ctor (vec2FromValues st p q) = ARRAY_TYPE st \<and>
   ctor (vec3Create st) = ARRAY_TYPE st \<and>
   ctor (vec3Clone st a) = ARRAY_TYPE st \<and>
   ctor (vec3FromValues st p q r) = ARRAY_TYPE st \<and>
   ctor (vec4Create st) = ARRAY_TYPE st \<and>
   ctor (vec4Clone st a) = ARRAY_TYPE st \<and>
   ctor (vec4FromValues st p q r s) = ARRAY_TYPE st \<and>
   ctor (mat2dCreate st) = ARRAY_TYPE st \<and>
   ctor (mat2dClone st a) = ARRAY_TYPE st \<and>
   ctor (mat2dFromValues st p q r s t u) = ARRAY_TYPE st \<and>
   ctor (quatCreate st) = ARRAY_TYPE st \<and>
   ctor (quatClone st a) = ARRAY_TYPE st \<and>
   ctor (quatFromValues st p q r s) = ARRAY_TYPE st \<and>
   ARRAY_TYPE (setMatrixArrayType ty st) = ty"
  by (simp add: vec2Clone_def vec2FromValues_def vec2Create_def vec3Clone_def vec4Clone_def
      vec3Create_def vec3FromValues_def vec4Create_def vec4FromValues_def mat2dCreate_def
      mat2dClone_def mat2dFromValues_def quatCreate_def quatClone_def quatFromValues_def
      setMatrixArrayType_def new_array_def store_slot_def Let_def)

section \<open>C6: normalising the zero vector\<close>

lemma vec2Normalize_zero:
  "length out = 2 \<Longrightarrow> a ! 0 = 0 \<Longrightarrow> a ! 1 = 0 \<Longrightarrow> vec2Normalize out a = [0, 0]"
  using list_of_length_2[of out] by (auto simp: vec2Normalize_def Let_def)

lemma vec3Normalize_zero:
  "length out = 3 \<Longrightarrow> a ! 0 = 0 \<Longrightarrow> a ! 1 = 0 \<Longrightarrow> a ! 2 = 0 \<Longrightarrow>
   vec3Normalize out a = [0, 0, 0]"
  using list_of_length_3[of out] by (auto simp: vec3Normalize_def Let_def)

lemma vec4Normalize_zero:
  "length out = 4 \<Longrightarrow> a ! 0 = 0 \<Longrightarrow> a ! 1 = 0 \<Longrightarrow> a ! 2 = 0 \<Longrightarrow> a ! 3 = 0 \<Longrightarrow>
   vec4Normalize out a = [0, 0, 0, 0]"
  using list_of_length_4[of out] by (auto simp: vec4Normalize_def Let_def)

text \<open>
  C6. When every component of the input is zero, \<open>vec2Normalize\<close>, \<open>vec3Normalize\<close>,
  \<open>vec4Normalize\<close> and \<open>quatNormalize\<close> write the zero vector to \<open>out\<close>. The model has
  no failure of its own: the source contains no \<open>throw\<close>, and the guard \<open>len > 0\<close>
  keeps the division out of this case.
\<close>

theorem normalize_zero_vector:
  "(length out2 = 2 \<and> a2 ! 0 = 0 \<and> a2 ! 1 = 0 \<longrightarrow> vec2Normalize out2 a2 = [0, 0]) \<and>
   (length out3 = 3 \<and> a3 ! 0 = 0 \<and> a3 ! 1 = 0 \<and> a3 ! 2 = 0 \<longrightarrow>
      vec3Normalize out3 a3 = [0, 0, 0]) \<and>
   (length out4 = 4 \<and> a4 ! 0 = 0 \<and> a4 ! 1 = 0 \<and> a4 ! 2 = 0 \<and> a4 ! 3 = 0 \<longrightarrow>
      vec4Normalize out4 a4 = [0, 0, 0, 0] \<and> quatNormalize out4 a4 = [0, 0, 0, 0])"
  using vec2Normalize_zero[of out2 a2] vec3Normalize_zero[of out3 a3]
    vec4Normalize_zero[of out4 a4]
  by (simp add: quatNormalize_def)

text \<open>C6, witness: zero vectors written to buffers holding other numbers.\<close>

theorem normalize_zero_vector_witness:
  "length [7, 8 :: real] = 2 \<and> [0, 0 :: real] ! 0 = 0 \<and> [0, 0 :: real] ! 1 = 0 \<and>
   vec2Normalize [7, 8] [0, 0] = [0, 0] \<and>
   length [7, 8, 9 :: real] = 3 \<and> vec3Normalize [7, 8, 9] [0, 0, 0] = [0, 0, 0] \<and>
   length [7, 8, 9, 10 :: real] = 4 \<and> vec4Normalize [7, 8, 9, 10] [0, 0, 0, 0] = [0, 0, 0, 0] \<and>
   quatNormalize [7, 8, 9, 10] [0, 0, 0, 0] = [0, 0, 0, 0]"
  using normalize_zero_vector [of "[7, 8]" "[0, 0]" "[7, 8, 9]" "[0, 0, 0]"
      "[7, 8, 9, 10]" "[0, 0, 0, 0]"]
  by simp

section \<open>C7: the ends of a spherical interpolation\<close>

lemma sinom_pos: "0 \<le> c \<Longrightarrow> 1 - c > EPSILON \<Longrightarrow> 0 < sin (arccos c)"
proof -
  assume c: "0 \<le> c" "1 - c > EPSILON"
  then have "- 1 < c" "c < 1" by (simp_all add: EPSILON_def)
  then have "0 < arccos c \<and> arccos c < pi" by (rule arccos_lt_bounded)
  then show ?thesis by (simp add: sin_gt_zero)
qed

lemma slerp_scales:
  fixes c :: real
  assumes "0 \<le> c"
  shows "(if 1 - c > EPSILON then sin ((1 - 0) * arccos c) / sin (arccos c) else 1 - 0) = 1"
    and "(if 1 - c > EPSILON then sin (0 * arccos c) / sin (arccos c) else 0) = 0"
    and "(if 1 - c > EPSILON then sin ((1 - 1) * arccos c) / sin (arccos c) else 1 - 1) = 0"
    and "(if 1 - c > EPSILON then sin (1 * arccos c) / sin (arccos c) else 1) = 1"
  using sinom_pos[OF assms] by auto

text \<open>The two branches of the sign adjustment, with the coefficients still as in the source.\<close>

lemma quatSlerp_nonnegative_dot:
  assumes "length out = 4" and "\<not> quatDot a b < 0"
  shows "quatSlerp out a b t =
    (let c = quatDot a b;
         k0 = (if 1 - c > EPSILON then sin ((1 - t) * arccos c) / sin (arccos c) else 1 - t);
         k1 = (if 1 - c > EPSILON then sin (t * arccos c) / sin (arccos c) else t)
     in [k0 * a ! 0 + k1 * b ! 0, k0 * a ! 1 + k1 * b ! 1,
         k0 * a ! 2 + k1 * b ! 2, k0 * a ! 3 + k1 * b ! 3])"
proof -
  obtain p q r s where out: "out = [p, q, r, s]" using list_of_length_4[OF assms(1)] by blast
  have c: "\<not> a ! 0 * b ! 0 + a ! 1 * b ! 1 + a ! 2 * b ! 2 + a ! 3 * b ! 3 < 0"
    using assms(2) by (simp add: quatDot_def vec4Dot_def)
  show ?thesis
    unfolding quatSlerp_def Let_def out quatDot_def vec4Dot_def if_not_P[OF c] prod.case
    by (cases "EPSILON < 1 - (a ! 0 * b ! 0 + a ! 1 * b ! 1 + a ! 2 * b ! 2 + a ! 3 * b ! 3)";
        simp)
qed

lemma quatSlerp_negative_dot:
  assumes "length out = 4" and "quatDot a b < 0"
  shows "quatSlerp out a b t =
    (let c = - quatDot a b;
         k0 = (if 1 - c > EPSILON then sin ((1 - t) * arccos c) / sin (arccos c) else 1 - t);
         k1 = (if 1 - c > EPSILON then sin (t * arccos c) / sin (arccos c) else t)
     in [k0 * a ! 0 + k1 * - b ! 0, k0 * a ! 1 + k1 * - b ! 1,
         k0 * a ! 2 + k1 * - b ! 2, k0 * a ! 3 + k1 * - b ! 3])"
proof -
  obtain p q r s where out: "out = [p, q, r, s]" using list_of_length_4[OF assms(1)] by blast
  have c: "a ! 0 * b ! 0 + a ! 1 * b ! 1 + a ! 2 * b ! 2 + a ! 3 * b ! 3 < 0"
    using assms(2) by (simp add: quatDot_def vec4Dot_def)
  show ?thesis
    unfolding quatSlerp_def Let_def out quatDot_def vec4Dot_def if_P[OF c] prod.case
    by (cases "EPSILON < 1 - - (a ! 0 * b ! 0 + a ! 1 * b ! 1 + a ! 2 * b ! 2 + a ! 3 * b ! 3)";
        simp)
qed

lemma quatSlerp_at_0:
  assumes "length out = 4"
  shows "quatSlerp out a b 0 = [a ! 0, a ! 1, a ! 2, a ! 3]"
proof (cases "quatDot a b < 0")
  case True
  then have "0 \<le> - quatDot a b" by simp
  then show ?thesis
    unfolding quatSlerp_negative_dot[OF assms True] Let_def
    by (simp only: slerp_scales) simp
next
  case False
  then have "0 \<le> quatDot a b" by simp
  then show ?thesis
    unfolding quatSlerp_nonnegative_dot[OF assms False] Let_def
    by (simp only: slerp_scales) simp
qed

lemma quatSlerp_at_1:
  assumes "length out = 4"
  shows "quatSlerp out a b 1 =
     (if quatDot a b < 0 then [- b ! 0, - b ! 1, - b ! 2, - b ! 3]
      else [b ! 0, b ! 1, b ! 2, b ! 3])"
proof (cases "quatDot a b < 0")
  case True
  then have "0 \<le> - quatDot a b" by simp
  then show ?thesis
    unfolding quatSlerp_negative_dot[OF assms True] Let_def
    by (simp only: slerp_scales) (simp add: True)
next
  case False
  then have "0 \<le> quatDot a b" by simp
  then show ?thesis
    unfolding quatSlerp_nonnegative_dot[OF assms False] Let_def
    by (simp only: slerp_scales) (simp add: False)
qed

lemma vec4Equals_same_components: "vec4Equals [a ! 0, a ! 1, a ! 2, a ! 3] a"
  by (simp add: vec4Equals_def EPSILON_def le_max_iff_disj)

lemma vec4Equals_refl: "vec4Equals a a"
  by (simp add: vec4Equals_def EPSILON_def le_max_iff_disj)

lemma unit_quatDot: "vec4Length b = 1 \<Longrightarrow> quatDot b b = 1"
  by (simp add: vec4Length_def quatDot_def vec4Dot_def Let_def)

text \<open>
  C7, counterexample. For the unit quaternions \<open>a = (0,0,0,1)\<close> and \<open>b = (0,0,0,-1)\<close>
  the dot product is negative, \<open>b\<close> is negated, and \<open>quatSlerp(out, a, b, 1)\<close> is
  \<open>(0,0,0,1) = -b\<close>, which is not approximately \<open>b\<close> component by component.
\<close>

theorem quatSlerp_end_counterexample:
  "vec4Length [0, 0, 0, 1] = 1 \<and> vec4Length [0, 0, 0, - 1] = 1 \<and>
   quatSlerp [0, 0, 0, 0] [0, 0, 0, 1] [0, 0, 0, - 1] 1 = [0, 0, 0, 1] \<and>
   \<not> vec4Equals (quatSlerp [0, 0, 0, 0] [0, 0, 0, 1] [0, 0, 0, - 1] 1) [0, 0, 0, - 1]"
  by (simp add: quatSlerp_def vec4Equals_def vec4Length_def EPSILON_def Let_def)

text \<open>
  C7, as amended. For unit quaternions \<open>a\<close> and \<open>b\<close>, \<open>quatSlerp(out, a, b, 0)\<close> is
  approximately \<open>a\<close> component by component (it is \<open>a\<close>); \<open>quatSlerp(out, a, b, 1)\<close>
  is approximately \<open>b\<close> component by component when the dot product of \<open>a\<close> and \<open>b\<close>
  is not negative, and approximately \<open>-b\<close> when it is negative (it is \<open>b\<close>, or \<open>-b\<close>);
  in both cases it is equal to \<open>b\<close> for \<open>quatEquals\<close>.
\<close>

theorem quatSlerp_boundary_values:
  assumes "length out = 4" and "vec4Length a = 1" and "vec4Length b = 1"
  shows "quatSlerp out a b 0 = [a ! 0, a ! 1, a ! 2, a ! 3] \<and>
         vec4Equals (quatSlerp out a b 0) a \<and>
         quatSlerp out a b 1 =
           (if quatDot a b < 0 then [- b ! 0, - b ! 1, - b ! 2, - b ! 3]
            else [b ! 0, b ! 1, b ! 2, b ! 3]) \<and>
         vec4Equals (quatSlerp out a b 1)
           (if quatDot a b < 0 then [- b ! 0, - b ! 1, - b ! 2, - b ! 3] else b) \<and>
         quatEquals (quatSlerp out a b 1) b"
proof -
  have u: "b ! 0 * b ! 0 + b ! 1 * b ! 1 + b ! 2 * b ! 2 + b ! 3 * b ! 3 = 1"
    using unit_quatDot[OF assms(3)] by (simp add: quatDot_def vec4Dot_def)
  have q: "quatEquals (quatSlerp out a b 1) b"
    unfolding quatSlerp_at_1[OF assms(1)] using u
    by (simp add: quatEquals_def quatDot_def vec4Dot_def EPSILON_def)
  have e0: "vec4Equals (quatSlerp out a b 0) a"
    unfolding quatSlerp_at_0[OF assms(1)] by (rule vec4Equals_same_components)
  have e1: "vec4Equals (quatSlerp out a b 1)
           (if quatDot a b < 0 then [- b ! 0, - b ! 1, - b ! 2, - b ! 3] else b)"
    unfolding quatSlerp_at_1[OF assms(1)]
    using vec4Equals_same_components[of b] vec4Equals_refl[of "[- b ! 0, - b ! 1, - b ! 2, - b ! 3]"]
    by simp
  show ?thesis
    using q e0 e1 quatSlerp_at_0[OF assms(1), of a b] quatSlerp_at_1[OF assms(1), of a b]
    by simp
qed

text \<open>
  C7, witness: from the identity \<open>(0,0,0,1)\<close> to \<open>(-1,0,0,0)\<close>, at a right angle to it,
  and, with a negative dot product, to \<open>(0,0,0,-1)\<close>.
\<close>

theorem quatSlerp_boundary_values_witness:
  "length [0, 0, 0, 0 :: real] = 4 \<and> vec4Length [0, 0, 0, 1] = 1 \<and>
   vec4Length [- 1, 0, 0, 0] = 1 \<and> vec4Length [0, 0, 0, - 1] = 1 \<and>
   quatSlerp [0, 0, 0, 0] [0, 0, 0, 1] [- 1, 0, 0, 0] 0 = [0, 0, 0, 1] \<and>
   quatSlerp [0, 0, 0, 0] [0, 0, 0, 1] [- 1, 0, 0, 0] 1 = [- 1, 0, 0, 0] \<and>
   quatEquals (quatSlerp [0, 0, 0, 0] [0, 0, 0, 1] [- 1, 0, 0, 0] 1) [- 1, 0, 0, 0] \<and>
   quatSlerp [0, 0, 0, 0] [0, 0, 0, 1] [0, 0, 0, - 1] 1 = [0, 0, 0, 1] \<and>
   quatEquals (quatSlerp [0, 0, 0, 0] [0, 0, 0, 1] [0, 0, 0, - 1] 1) [0, 0, 0, - 1]"
proof -
  have h0: "length [0, 0, 0, 0 :: real] = 4" by simp
  have h1: "vec4Length [0, 0, 0, 1] = 1" by (simp add: vec4Length_def)
  have h2: "vec4Length [- 1, 0, 0, 0] = 1" by (simp add: vec4Length_def)
  have h3: "vec4Length [0, 0, 0, - 1] = 1" by (simp add: vec4Length_def)
  have d2: "\<not> quatDot [0, 0, 0, 1] [- 1, 0, 0, 0] < 0" by (simp add: quatDot_def vec4Dot_def)
  have d3: "quatDot [0, 0, 0, 1] [0, 0, 0, - 1] < 0" by (simp add: quatDot_def vec4Dot_def)
  show ?thesis
    using h0 h1 h2 h3 d2 d3
      quatSlerp_boundary_values [OF h0 h1 h2] quatSlerp_boundary_values [OF h0 h1 h3]
    by auto
qed

section \<open>C8: rounding\<close>

lemma js_rem_half_negative:
  "b < 0 \<Longrightarrow> js_rem b (1 / 2) = 0 \<longleftrightarrow> 2 * b = of_int \<lceil>2 * b\<rceil>"
  by (auto simp: js_rem_def mult.commute)

lemma round_glm_half_nonnegative:
  assumes a: "0 \<le> a" and f: "frac a = 1 / 2"
  shows "round_glm a = a + 1 / 2"
proof -
  have "a = of_int \<lfloor>a\<rfloor> + 1 / 2" using f by (simp add: frac_def)
  then have e: "a + 1 / 2 = of_int (\<lfloor>a\<rfloor> + 1)" by simp
  then have "\<lfloor>a + 1 / 2\<rfloor> = \<lfloor>a\<rfloor> + 1" by (metis floor_of_int)
  then show ?thesis using a e by (simp add: round_glm_def Math_round_def)
qed

lemma round_glm_half_negative:
  assumes b: "b < 0" and f: "frac b = 1 / 2"
  shows "round_glm b = of_int \<lfloor>b\<rfloor>"
proof -
  have "b = of_int \<lfloor>b\<rfloor> + 1 / 2" using f by (simp add: frac_def)
  then have "2 * b = of_int (2 * \<lfloor>b\<rfloor> + 1)" by simp
  then have "2 * b = of_int \<lceil>2 * b\<rceil>" by (metis ceiling_of_int)
  then have "js_rem b (1 / 2) = 0" using js_rem_half_negative[OF b] by simp
  then show ?thesis using b by (simp add: round_glm_def Math_floor_def)
qed

lemma Math_round_nearest:
  assumes ne: "frac c \<noteq> 1 / 2"
  shows "\<bar>Math_round c - c\<bar> < 1 / 2"
proof -
  have lo: "of_int \<lfloor>c\<rfloor> \<le> c" and hi: "c < of_int \<lfloor>c\<rfloor> + 1" by linarith+
  show ?thesis
  proof (cases "frac c < 1 / 2")
    case True
    then have t: "c < of_int \<lfloor>c\<rfloor> + 1 / 2" by (simp add: frac_def)
    have "\<lfloor>c + 1 / 2\<rfloor> = \<lfloor>c\<rfloor>"
    proof (rule floor_unique)
      show "of_int \<lfloor>c\<rfloor> \<le> c + 1 / 2" using lo by linarith
      show "c + 1 / 2 < of_int \<lfloor>c\<rfloor> + 1" using t by linarith
    qed
    then have "Math_round c = of_int \<lfloor>c\<rfloor>" by (simp add: Math_round_def)
    then show ?thesis using t lo by linarith
  next
    case False
    with ne have g: "of_int \<lfloor>c\<rfloor> + 1 / 2 < c" by (simp add: frac_def)
    have "\<lfloor>c + 1 / 2\<rfloor> = \<lfloor>c\<rfloor> + 1"
    proof (rule floor_unique)
      have "of_int (\<lfloor>c\<rfloor> + 1) = of_int \<lfloor>c\<rfloor> + (1 :: real)" by simp
      then show "of_int (\<lfloor>c\<rfloor> + 1) \<le> c + 1 / 2" using g by linarith
      have "of_int (\<lfloor>c\<rfloor> + 1) = of_int \<lfloor>c\<rfloor> + (1 :: real)" by simp
      then show "c + 1 / 2 < of_int (\<lfloor>c\<rfloor> + 1) + 1" using hi by linarith
    qed
    then have "Math_round c = of_int \<lfloor>c\<rfloor> + 1" by (simp add: Math_round_def)
    then show ?thesis using g hi by linarith
  qed
qed

lemma round_glm_nearest:
  assumes f: "frac c \<noteq> 1 / 2"
  shows "round_glm c \<in> \<int> \<and> \<bar>round_glm c - c\<bar> < 1 / 2"
proof -
  have i: "round_glm c \<in> \<int>" by (simp add: round_glm_def Math_round_def Math_floor_def)
  have "\<bar>round_glm c - c\<bar> < 1 / 2"
  proof (cases "c < 0 \<and> js_rem c (1 / 2) = 0")
    case True
    then have "2 * c = of_int \<lceil>2 * c\<rceil>" using js_rem_half_negative[of c] by blast
    then have e: "c = of_int \<lceil>2 * c\<rceil> / 2" by simp
    have "even \<lceil>2 * c\<rceil>"
    proof (rule ccontr)
      assume "odd \<lceil>2 * c\<rceil>"
      then obtain m where m: "\<lceil>2 * c\<rceil> = 2 * m + 1" by (auto elim: oddE)
      have "c = of_int m + 1 / 2" using e unfolding m by simp
      then have "frac c = 1 / 2" by (simp add: frac_def)
      then show False using f by simp
    qed
    then obtain m where m: "\<lceil>2 * c\<rceil> = 2 * m" by (auto elim: evenE)
    have "c = of_int m" using e unfolding m by simp
    then have fl: "of_int \<lfloor>c\<rfloor> = c" by (metis floor_of_int)
    have "round_glm c = of_int \<lfloor>c\<rfloor>"
      using True by (simp add: round_glm_def Math_floor_def)
    with fl have "round_glm c = c" by (simp only:)
    then show ?thesis by simp
  next
    case False
    then have "round_glm c = Math_round c" by (auto simp: round_glm_def)
    then show ?thesis using Math_round_nearest[OF f] by simp
  qed
  then show ?thesis using i by simp
qed

text \<open>
  C8. For \<open>a \<ge> 0\<close> with fractional part one half, \<open>round a\<close> is \<open>a + 1/2\<close>, away
  from zero; for \<open>b < 0\<close> with fractional part one half, \<open>round b\<close> is the floor of
  \<open>b\<close>; every other number is rounded to the integer nearest to it, which is less than
  one half away. In particular \<open>round(0.5) = 1\<close>, \<open>round(2.5) = 3\<close> and
  \<open>round(-2.5) = -3\<close>.
\<close>

theorem round_glm_half_away_or_floor:
  "(0 \<le> a \<and> frac a = 1 / 2 \<longrightarrow> round_glm a = a + 1 / 2) \<and>
   (b < 0 \<and> frac b = 1 / 2 \<longrightarrow> round_glm b = of_int \<lfloor>b\<rfloor>) \<and>
   (frac c \<noteq> 1 / 2 \<longrightarrow> round_glm c \<in> \<int> \<and> \<bar>round_glm c - c\<bar> < 1 / 2) \<and>
   round_glm (1 / 2) = 1 \<and> round_glm (5 / 2) = 3 \<and> round_glm (- 5 / 2) = - 3"
proof -
  have "round_glm (1 / 2) = 1 \<and> round_glm (5 / 2) = 3 \<and> round_glm (- 5 / 2) = - 3"
    by (simp add: round_glm_def Math_round_def Math_floor_def js_rem_def)
  then show ?thesis
    using round_glm_half_nonnegative[of a] round_glm_half_negative[of b]
      round_glm_nearest[of c]
    by blast
qed

text \<open>C8, witness: \<open>7/2\<close> goes to \<open>4\<close>, \<open>-7/2\<close> goes to \<open>-4\<close>, and \<open>-7/4\<close>
  goes to an integer less than one half away.\<close>

theorem round_glm_half_away_or_floor_witness:
  "(0 :: real) \<le> 7 / 2 \<and> frac (7 / 2 :: real) = 1 / 2 \<and> round_glm (7 / 2) = 4 \<and>
   (- 7 / 2 :: real) < 0 \<and> frac (- 7 / 2 :: real) = 1 / 2 \<and> round_glm (- 7 / 2) = - 4 \<and>
   frac (- 7 / 4 :: real) \<noteq> 1 / 2 \<and> round_glm (- 7 / 4) \<in> \<int> \<and>
   \<bar>round_glm (- 7 / 4) - (- 7 / 4)\<bar> < 1 / 2"
proof -
  have f1: "frac (7 / 2 :: real) = 1 / 2" by (simp add: frac_def)
  have f2: "frac (- 7 / 2 :: real) = 1 / 2" by (simp add: frac_def)
  have f3: "frac (- 7 / 4 :: real) \<noteq> 1 / 2" by (simp add: frac_def)
  show ?thesis
    using f1 f2 f3 round_glm_half_away_or_floor [of "7 / 2" "- 7 / 2" "- 7 / 4"]
    by simp
qed

section \<open>C9: fitting a 16:9 rectangle into 400 by 300\<close>




section \<open>C10: a new rectangle\<close>

text \<open>
  C10. \<open>rectCreate()\<close> is the unit square \<open>{x: 0, y: 0, width: 1, height: 1}\<close>; it is not
  the record of four zeros, and its centre is \<open>(1/2, 1/2)\<close>.
\<close>

theorem rectCreate_unit_square:
  "rectCreate = \<lparr>x = 0, y = 0, width = 1, height = 1\<rparr> \<and>
   width rectCreate = 1 \<and> height rectCreate = 1 \<and>
   rectCreate \<noteq> \<lparr>x = 0, y = 0, width = 0, height = 0\<rparr> \<and>
   rectCenterX rectCreate = 1 / 2 \<and> rectCenterY rectCreate = 1 / 2 \<and>
   rectCenter [0, 0] rectCreate = [1 / 2, 1 / 2]"
  by (simp add: rectCreate_def rectCenterX_def rectCenterY_def rectCenter_def vec2Set_def)

end
